theory Spec2Isabelle
  imports Complex_Main "HOL-Library.Sublist" "HOL-Library.Log_Nat"
begin

section \<open>JavaScript values used by the synthesis service\<close>

text \<open>
  The theory embeds \<^verbatim>\<open>backend/services/synthesisService.js\<close>. Texts are
  \<^typ>\<open>string\<close>s whose characters stand for the code units 0 to 255 of a
  JavaScript string, read as Latin-1. Numbers are the values a JavaScript number
  takes: \<open>NaN\<close>, the two infinities, or a finite double, kept as the rational it
  denotes. Every arithmetic operation rounds its exact result to the nearest
  double, a tie going to the even significand, as IEEE 754 binary64 does. Zero has
  no sign in the model.
\<close>

datatype jsnum = NaN | PosInf | NegInf | Fin rat

subsection \<open>Rounding to a double\<close>

definition pow2 :: "int \<Rightarrow> rat" where
  "pow2 e = (if 0 \<le> e then 2 ^ nat e else 1 / 2 ^ nat (- e))"

text \<open>The exponent \<open>\<lfloor>log\<^sub>2 x\<rfloor>\<close> of a positive rational: the difference of the bit
  lengths of numerator and denominator, or one less.\<close>

definition ilog2 :: "rat \<Rightarrow> int" where
  "ilog2 x =
     (let (p, q) = quotient_of x;
          e = bitlen p - bitlen q
      in if pow2 e \<le> x then e else e - 1)"

definition round_half_even :: "rat \<Rightarrow> int" where
  "round_half_even x =
     (let n = \<lfloor>x\<rfloor>; r = x - of_int n
      in if r < 1 / 2 then n else if 1 / 2 < r then n + 1
         else if even n then n else n + 1)"

text \<open>
  The double nearest to a rational. A double with exponent \<open>e\<close> is a multiple of
  \<open>2\<^sup>e\<^sup>-\<^sup>5\<^sup>2\<close> with a significand below \<open>2\<^sup>5\<^sup>3\<close>; the exponent is at least
  \<open>-1022\<close> (below that the doubles are subnormal and equally spaced), and a
  result of \<open>2\<^sup>1\<^sup>0\<^sup>2\<^sup>4\<close> or more is an infinity.
\<close>

definition to_double :: "rat \<Rightarrow> jsnum" where
  "to_double x =
     (if x = 0 then Fin 0
      else let a = \<bar>x\<bar>;
               e = max (ilog2 a) (- 1022);
               m = round_half_even (a / pow2 (e - 52))
           in if 1023 < e \<or> (e = 1023 \<and> m = 2 ^ 53)
              then (if 0 < x then PosInf else NegInf)
              else Fin ((if 0 < x then 1 else - 1) * of_int m * pow2 (e - 52)))"

subsection \<open>Arithmetic and comparison\<close>

text \<open>\<^verbatim>\<open>a.size / b.size\<close> on two collection sizes.\<close>

definition js_div :: "nat \<Rightarrow> nat \<Rightarrow> jsnum" where
  "js_div n d =
     (if d = 0 then (if n = 0 then NaN else PosInf)
      else to_double (rat_of_nat n / rat_of_nat d))"

text \<open>\<^verbatim>\<open>a + b\<close> on numbers.\<close>

fun js_add :: "jsnum \<Rightarrow> jsnum \<Rightarrow> jsnum" where
  "js_add NaN _ = NaN"
| "js_add _ NaN = NaN"
| "js_add PosInf NegInf = NaN"
| "js_add NegInf PosInf = NaN"
| "js_add PosInf _ = PosInf"
| "js_add _ PosInf = PosInf"
| "js_add NegInf _ = NegInf"
| "js_add _ NegInf = NegInf"
| "js_add (Fin a) (Fin b) = to_double (a + b)"

text \<open>\<^verbatim>\<open>x / xs.length\<close>: a number divided by an array length.\<close>

fun js_div_count :: "jsnum \<Rightarrow> nat \<Rightarrow> jsnum" where
  "js_div_count NaN _ = NaN"
| "js_div_count PosInf _ = PosInf"
| "js_div_count NegInf _ = NegInf"
| "js_div_count (Fin a) n =
     (if n = 0 then (if a = 0 then NaN else if 0 < a then PosInf else NegInf)
      else to_double (a / rat_of_nat n))"

text \<open>\<^verbatim>\<open>x * 100\<close>.\<close>

fun js_times100 :: "jsnum \<Rightarrow> jsnum" where
  "js_times100 (Fin a) = to_double (a * 100)"
| "js_times100 x = x"

text \<open>\<^verbatim>\<open>x >= y\<close> and \<^verbatim>\<open>x > y\<close> on numbers; every comparison with \<open>NaN\<close> is
  false.\<close>

fun js_ge_values :: "jsnum \<Rightarrow> jsnum \<Rightarrow> bool" where
  "js_ge_values NaN _ = False"
| "js_ge_values _ NaN = False"
| "js_ge_values PosInf _ = True"
| "js_ge_values _ NegInf = True"
| "js_ge_values NegInf _ = False"
| "js_ge_values _ PosInf = False"
| "js_ge_values (Fin a) (Fin b) = (b \<le> a)"

fun js_gt_values :: "jsnum \<Rightarrow> jsnum \<Rightarrow> bool" where
  "js_gt_values NaN _ = False"
| "js_gt_values _ NaN = False"
| "js_gt_values NegInf _ = False"
| "js_gt_values _ PosInf = False"
| "js_gt_values PosInf _ = True"
| "js_gt_values _ NegInf = True"
| "js_gt_values (Fin a) (Fin b) = (b < a)"

text \<open>\<^verbatim>\<open>x >= c\<close> and \<^verbatim>\<open>x > c\<close> against a decimal literal of the source text,
  such as \<^verbatim>\<open>0.7\<close>: the literal denotes the double nearest to it.\<close>

definition js_ge :: "jsnum \<Rightarrow> rat \<Rightarrow> bool" where
  "js_ge x c = js_ge_values x (to_double c)"

definition js_gt :: "jsnum \<Rightarrow> rat \<Rightarrow> bool" where
  "js_gt x c = js_gt_values x (to_double c)"

text \<open>\<^verbatim>\<open>Math.round\<close>: the integer nearest to the double, a tie going up,
  computed without rounding error; \<open>NaN\<close> and the infinities are returned
  unchanged.\<close>

datatype jsint = RNaN | RPosInf | RNegInf | RInt int

fun Math_round :: "jsnum \<Rightarrow> jsint" where
  "Math_round NaN = RNaN"
| "Math_round PosInf = RPosInf"
| "Math_round NegInf = RNegInf"
| "Math_round (Fin a) = RInt \<lfloor>a + 1 / 2\<rfloor>"

subsection \<open>Strings\<close>

text \<open>
  \<^verbatim>\<open>toLowerCase\<close> on a code unit below 256: the letters \<open>A\<close> to \<open>Z\<close> and
  U+00C0 to U+00DE, the multiplication sign U+00D7 apart, move up by 32.
\<close>

definition lower_char :: "char \<Rightarrow> char" where
  "lower_char c =
     (let n = (of_char c :: int)
      in if (65 \<le> n \<and> n \<le> 90) \<or> (192 \<le> n \<and> n \<le> 222 \<and> n \<noteq> 215)
         then char_of (n + 32) else c)"

text \<open>
  \<^verbatim>\<open>toUpperCase\<close> on a code unit below 256: the letters \<open>a\<close> to \<open>z\<close> and
  U+00E0 to U+00FE, the division sign U+00F7 apart, move down by 32, and the sharp
  s U+00DF becomes \<open>SS\<close>. The upper-case forms of U+00B5 and U+00FF are code
  units above 255, which a \<^typ>\<open>char\<close> cannot hold: the model leaves these two
  unchanged.
\<close>

definition upper_chars :: "char \<Rightarrow> string" where
  "upper_chars c =
     (let n = (of_char c :: int)
      in if (97 \<le> n \<and> n \<le> 122) \<or> (224 \<le> n \<and> n \<le> 254 \<and> n \<noteq> 247)
         then [char_of (n - 32)]
         else if n = 223 then ''SS'' else [c])"

definition toLowerCase :: "string \<Rightarrow> string" where
  "toLowerCase s = map lower_char s"

definition toUpperCase :: "string \<Rightarrow> string" where
  "toUpperCase s = concat (map upper_chars s)"

text \<open>The class \<^verbatim>\<open>\s\<close> below 256, which is also what \<^verbatim>\<open>trim\<close> removes: tab,
  line feed, vertical tab, form feed, carriage return, space and the no-break
  space U+00A0.\<close>

definition is_space :: "char \<Rightarrow> bool" where
  "is_space c =
     (c \<in> set [CHR 0x09, CHR 0x0A, CHR 0x0B, CHR 0x0C, CHR 0x0D, CHR '' '', CHR 0xA0])"

text \<open>The class \<^verbatim>\<open>[.!?]\<close>.\<close>

definition is_terminator :: "char \<Rightarrow> bool" where
  "is_terminator c = (c \<in> set ''.!?'')"

text \<open>
  \<^verbatim>\<open>s.split(/C+/)\<close> for a character class \<open>C\<close>: the pieces between the
  maximal runs of separator characters. A separator run at the start or the end
  leaves an empty piece there, and the empty string splits into one empty piece.
\<close>

fun split_runs :: "(char \<Rightarrow> bool) \<Rightarrow> string \<Rightarrow> string list" where
  "split_runs sep [] = [[]]"
| "split_runs sep (c # cs) =
     (if sep c then
        (case cs of
           [] \<Rightarrow> [[], []]
         | d # _ \<Rightarrow> if sep d then split_runs sep cs else [] # split_runs sep cs)
      else
        (case split_runs sep cs of
           [] \<Rightarrow> [[c]]
         | p # ps \<Rightarrow> (c # p) # ps))"

definition trim :: "string \<Rightarrow> string" where
  "trim s = rev (dropWhile is_space (rev (dropWhile is_space s)))"

text \<open>\<^verbatim>\<open>s.includes(sub)\<close>.\<close>

fun includes_str :: "string \<Rightarrow> string \<Rightarrow> bool" where
  "includes_str [] sub = (sub = [])"
| "includes_str (c # cs) sub = (prefix sub (c # cs) \<or> includes_str cs sub)"

text \<open>\<^verbatim>\<open>xs.join(sep)\<close>.\<close>

fun join :: "string \<Rightarrow> string list \<Rightarrow> string" where
  "join sep [] = []"
| "join sep [x] = x"
| "join sep (x # y # ys) = x @ sep @ join sep (y # ys)"

text \<open>Decimal digits of a length or an integer, as template literals print them.\<close>

definition digit_char :: "nat \<Rightarrow> char" where
  "digit_char d = (''0123456789'' ! d)"

fun show_nat :: "nat \<Rightarrow> string" where
  "show_nat n = (if n < 10 then [digit_char n] else show_nat (n div 10) @ [digit_char (n mod 10)])"

definition show_jsint :: "jsint \<Rightarrow> string" where
  "show_jsint x = (case x of
       RNaN \<Rightarrow> ''NaN''
     | RPosInf \<Rightarrow> ''Infinity''
     | RNegInf \<Rightarrow> ''-Infinity''
     | RInt k \<Rightarrow> (if k < 0 then ''-'' @ show_nat (nat (- k)) else show_nat (nat k)))"

section \<open>The similarity analyser\<close>

text \<open>The set of words of a text: lower-cased, split on whitespace, words of
  more than two characters kept.\<close>

definition words_of :: "string \<Rightarrow> string set" where
  "words_of t = set (filter (\<lambda>word. 2 < length word) (split_runs is_space (toLowerCase t)))"

definition calculateTextSimilarity :: "string \<Rightarrow> string \<Rightarrow> jsnum" where
  "calculateTextSimilarity text1 text2 =
     (if text1 = [] \<or> text2 = [] then Fin 0
      else
        let words1 = words_of text1;
            words2 = words_of text2;
            intersection = words1 \<inter> words2;
            union = words1 \<union> words2
        in js_div (card intersection) (card union))"

section \<open>Sentences and the three composition helpers\<close>

definition splitIntoSentences :: "string \<Rightarrow> string list" where
  "splitIntoSentences t = filter (\<lambda>s. 10 < length (trim s)) (split_runs is_terminator t)"

text \<open>An entry of \<^verbatim>\<open>validResponses\<close>: \<^verbatim>\<open>{ source, text, length }\<close>.\<close>

record ValidResponse =
  source :: string
  rtext :: string
  rlength :: nat

definition indicators :: "string list" where
  "indicators = [''recommend'', ''suggest'', ''important'', ''key'', ''should'',
                 ''best'', ''main'', ''first'', ''consider'']"

definition extractKeyPoints :: "string \<Rightarrow> string list" where
  "extractKeyPoints t =
     (let sentences = splitIntoSentences t;
          keyPoints = map trim
            (filter (\<lambda>sentence.
                 (\<exists>indicator \<in> set indicators. includes_str (toLowerCase sentence) indicator)
                 \<and> 30 < length sentence \<and> length sentence < 200)
               sentences)
      in take 3 keyPoints)"

text \<open>The inner test of \<^verbatim>\<open>extractUniqueDetails\<close>: no base sentence is more
  than 0.7 similar to the sentence.\<close>

definition isUnique :: "string list \<Rightarrow> string \<Rightarrow> bool" where
  "isUnique baseSentences sentence =
     (\<not> (\<exists>baseSentence \<in> set baseSentences.
           js_gt (calculateTextSimilarity sentence baseSentence) (7 / 10)))"

definition detailsOf :: "string list \<Rightarrow> ValidResponse \<Rightarrow> string list" where
  "detailsOf baseSentences response =
     map (\<lambda>sentence. source response @ '': '' @ trim sentence)
       (filter (\<lambda>sentence. isUnique baseSentences sentence
                    \<and> 20 < length sentence \<and> length sentence < 150)
          (splitIntoSentences (rtext response)))"

definition extractUniqueDetails :: "ValidResponse \<Rightarrow> ValidResponse list \<Rightarrow> string list" where
  "extractUniqueDetails baseResponse allResponses =
     (let baseSentences = splitIntoSentences (rtext baseResponse);
          uniqueDetails = concat (map (\<lambda>response.
              if source response = source baseResponse then []
              else detailsOf baseSentences response) allResponses)
      in take 3 uniqueDetails)"

text \<open>\<^verbatim>\<open>findCommonThemes\<close>: the loop over all sentences carries the themes
  found so far and the set of processed sentence texts.\<close>

definition allSentencesOf :: "ValidResponse list \<Rightarrow> (string \<times> string) list" where
  "allSentencesOf responses =
     concat (map (\<lambda>r. map (\<lambda>s. (s, source r)) (splitIntoSentences (rtext r))) responses)"

definition themeStep ::
  "(string \<times> string) list \<Rightarrow> string list \<times> string set \<Rightarrow> string \<times> string
     \<Rightarrow> string list \<times> string set" where
  "themeStep allSentences st sentence =
     (case st of (themes, processedSentences) \<Rightarrow>
        if fst sentence \<in> processedSentences then st
        else
          let similar = filter (\<lambda>other. snd other \<noteq> snd sentence \<and>
                js_gt (calculateTextSimilarity (fst sentence) (fst other)) (6 / 10)) allSentences
          in if 0 < length similar
             then (themes @ [trim (fst sentence)],
                   insert (fst sentence) processedSentences \<union> set (map fst similar))
             else st)"

definition findCommonThemes :: "ValidResponse list \<Rightarrow> string list" where
  "findCommonThemes responses =
     (let allSentences = allSentencesOf responses;
          themes = fst (foldl (themeStep allSentences) ([], {}) allSentences)
      in take 4 themes)"

definition contrastPairs :: "(string \<times> string) list" where
  "contrastPairs =
     [(''yes'', ''no''), (''should'', ''shouldn'' @ [CHR 0x27] @ ''t''), (''good'', ''bad''),
      (''recommend'', ''avoid''), (''best'', ''worst''), (''increase'', ''decrease''),
      (''positive'', ''negative''), (''agree'', ''disagree''), (''support'', ''oppose'')]"

definition dquote :: string where
  "dquote = [CHR 0x22]"

definition findDisagreements :: "ValidResponse list \<Rightarrow> string list" where
  "findDisagreements responses =
     (let disagreements = concat (map (\<lambda>(word1, word2).
            let hasWord1Sources =
                  map source (filter (\<lambda>r. includes_str (toLowerCase (rtext r)) word1) responses);
                hasWord2Sources =
                  map source (filter (\<lambda>r. includes_str (toLowerCase (rtext r)) word2) responses)
            in if 0 < length hasWord1Sources \<and> 0 < length hasWord2Sources
               then [join '', '' hasWord1Sources @ '' lean towards '' @ dquote @ word1 @ dquote
                     @ '' while '' @ join '', '' hasWord2Sources @ '' suggest ''
                     @ dquote @ word2 @ dquote]
               else []) contrastPairs)
      in take 2 disagreements)"

section \<open>The synthesis strategy selector\<close>

text \<open>
  A provider's entry in \<^verbatim>\<open>individualResponses\<close> is either the text the adapter
  returned or the object the server builds for a rejected call,
  \<^verbatim>\<open>{ error, message, source }\<close>. The mapping itself is the list of its
  entries in the order \<^verbatim>\<open>Object.entries\<close> enumerates them.
\<close>

datatype ProviderResponse = Text string | ErrorEntry bool string string

record SynthesisResult =
  confidence :: string
  confidenceScore :: jsint
  synthesizedAnswer :: string
  approach :: string
  sourcesUsed :: "string list"
  reasoning :: string

text \<open>\<^verbatim>\<open>source.charAt(0).toUpperCase() + source.slice(1)\<close>.\<close>

definition capitalize :: "string \<Rightarrow> string" where
  "capitalize s = toUpperCase (take 1 s) @ drop 1 s"

text \<open>The first loop: an entry is kept when \<^verbatim>\<open>!response.error\<close> holds and it is
  a string. A string has no \<^verbatim>\<open>error\<close> property, so every string is kept; an
  object is never a string.\<close>

fun collectValid :: "(string \<times> ProviderResponse) list \<Rightarrow> ValidResponse list" where
  "collectValid [] = []"
| "collectValid ((src, Text response) # rest) =
     \<lparr>source = capitalize src, rtext = response, rlength = length response\<rparr>
       # collectValid rest"
| "collectValid ((src, ErrorEntry e m s) # rest) = collectValid rest"

text \<open>The nested loops over \<open>i < j\<close>.\<close>

fun pairSimilarities :: "ValidResponse list \<Rightarrow> jsnum list" where
  "pairSimilarities [] = []"
| "pairSimilarities (r # rs) =
     map (\<lambda>q. calculateTextSimilarity (rtext r) (rtext q)) rs @ pairSimilarities rs"

definition avgSimilarityOf :: "jsnum list \<Rightarrow> jsnum" where
  "avgSimilarityOf similarities =
     js_div_count (foldl js_add (Fin 0) similarities) (length similarities)"

text \<open>\<^verbatim>\<open>reduce((longest, current) => current.length > longest.length ? current : longest)\<close>
  started on the first element.\<close>

definition longestOf :: "ValidResponse \<Rightarrow> ValidResponse list \<Rightarrow> ValidResponse" where
  "longestOf first others =
     foldl (\<lambda>longest current. if rlength longest < rlength current then current else longest)
       first others"

definition nl :: string where
  "nl = [CHR 0x0A]"

text \<open>The bullet U+2022 of the templates, written as its three UTF-8 bytes; it only
  occurs in composed output, whose length is never measured.\<close>

definition bullet :: string where
  "bullet = [CHR 0xE2, CHR 0x80, CHR 0xA2]"

definition consensusText :: "ValidResponse \<Rightarrow> string list \<Rightarrow> string" where
  "consensusText baseResponse uniqueDetails =
     (if 0 < length uniqueDetails
      then rtext baseResponse @ nl @ nl @ ''**Additional insights:**'' @ nl
           @ join nl (map (\<lambda>detail. bullet @ '' '' @ detail) uniqueDetails)
      else rtext baseResponse)"

definition balancedText :: "string list \<Rightarrow> string list \<Rightarrow> string" where
  "balancedText commonThemes disagreements =
     ''**Based on multiple AI perspectives:**'' @ nl @ nl
     @ (if 0 < length commonThemes
        then ''**Common insights:**'' @ nl
             @ concat (map (\<lambda>theme. bullet @ '' '' @ theme @ nl) commonThemes)
        else [])
     @ (if 0 < length disagreements
        then nl @ ''**Different perspectives:**'' @ nl
             @ concat (map (\<lambda>disagreement. bullet @ '' '' @ disagreement @ nl) disagreements)
        else [])"

definition approachSection :: "ValidResponse \<Rightarrow> string" where
  "approachSection response =
     (let keyPoints = extractKeyPoints (rtext response)
      in ''**'' @ source response @ '' approach:**'' @ nl
         @ (if 0 < length keyPoints
            then concat (map (\<lambda>point. bullet @ '' '' @ point @ nl) keyPoints)
            else (case splitIntoSentences (rtext response) of
                    [] \<Rightarrow> []
                  | firstSentence # _ \<Rightarrow>
                      if firstSentence \<noteq> [] then bullet @ '' '' @ firstSentence @ nl else []))
         @ nl)"

definition comparativeText :: "ValidResponse list \<Rightarrow> string" where
  "comparativeText validResponses =
     ''**Different AI models suggest distinct approaches:**'' @ nl @ nl
     @ concat (map approachSection validResponses)
     @ ''**Recommendation:** Consider combining elements from multiple approaches based on your specific context.''"

definition synthesizeResponses :: "(string \<times> ProviderResponse) list \<Rightarrow> SynthesisResult" where
  "synthesizeResponses individualResponses =
     (let validResponses = collectValid individualResponses in
      case validResponses of
        [] \<Rightarrow>
          \<lparr>confidence = ''No Valid Responses'',
           confidenceScore = RInt 0,
           synthesizedAnswer = ''All AI services failed to provide valid responses.'',
           approach = ''error'',
           sourcesUsed = [],
           reasoning = ''No successful responses received''\<rparr>
      | [only] \<Rightarrow>
          \<lparr>confidence = ''Single Source'',
           confidenceScore = RInt 50,
           synthesizedAnswer = rtext only,
           approach = ''single'',
           sourcesUsed = [source only],
           reasoning = ''Only one AI service provided a valid response''\<rparr>
      | first # others \<Rightarrow>
          let similarities = pairSimilarities validResponses;
              avgSimilarity = avgSimilarityOf similarities;
              score = Math_round (js_times100 avgSimilarity)
          in
          if js_ge avgSimilarity (7 / 10) then
            let baseResponse = longestOf first others;
                uniqueDetails = extractUniqueDetails baseResponse validResponses
            in
            \<lparr>confidence = ''High Confidence'',
             confidenceScore = score,
             synthesizedAnswer = consensusText baseResponse uniqueDetails,
             approach = ''consensus'',
             sourcesUsed = map source validResponses,
             reasoning = show_nat (length validResponses)
               @ '' models provided similar answers ('' @ show_jsint score @ ''% agreement)''\<rparr>
          else if js_ge avgSimilarity (3 / 10) then
            let commonThemes = findCommonThemes validResponses;
                disagreements = findDisagreements validResponses
            in
            \<lparr>confidence = ''Multiple Perspectives'',
             confidenceScore = score,
             synthesizedAnswer = balancedText commonThemes disagreements,
             approach = ''balanced'',
             sourcesUsed = map source validResponses,
             reasoning = ''Models showed '' @ show_jsint score
               @ ''% agreement with notable differences''\<rparr>
          else
            \<lparr>confidence = ''Diverse Approaches'',
             confidenceScore = score,
             synthesizedAnswer = comparativeText validResponses,
             approach = ''comparative'',
             sourcesUsed = map source validResponses,
             reasoning = ''Models provided significantly different approaches (''
               @ show_jsint score @ ''% agreement)''\<rparr>)"



section \<open>Notions used to state the properties\<close>



text \<open>
  The pairwise similarities as section 7 of the specification words them, for
  comparison with \<^const>\<open>pairSimilarities\<close>: a pair with an empty text is left
  out of the mean.
\<close>

fun spec_pairSimilarities_excluding_empty :: "ValidResponse list \<Rightarrow> jsnum list" where
  "spec_pairSimilarities_excluding_empty [] = []"
| "spec_pairSimilarities_excluding_empty (r # rs) =
     map (\<lambda>q. calculateTextSimilarity (rtext r) (rtext q))
       (filter (\<lambda>q. rtext r \<noteq> [] \<and> rtext q \<noteq> []) rs)
     @ spec_pairSimilarities_excluding_empty rs"

section \<open>Basic facts\<close>

lemma finite_words_of: "finite (words_of t)"
  by (simp add: words_of_def)



lemma at_least_two: "2 \<le> length vs \<Longrightarrow> \<exists>a b rest. vs = a # b # rest"
  by (cases vs; cases "tl vs") auto

lemma score_collectValid:
  assumes "2 \<le> length (collectValid m)"
  shows "confidenceScore (synthesizeResponses m) =
     Math_round (js_times100 (avgSimilarityOf (pairSimilarities (collectValid m))))"
proof -
  obtain a b rest where "collectValid m = a # b # rest"
    using at_least_two[OF assms] by blast
  then show ?thesis
    by (simp add: synthesizeResponses_def Let_def)
qed

lemma length_pairSimilarities:
  "length (pairSimilarities vs) = length vs * (length vs - 1) div 2"
proof (induction vs)
  case Nil
  then show ?case by simp
next
  case (Cons r rs)
  have "length rs + length rs * (length rs - 1) div 2 = (length rs * 2 + length rs * (length rs - 1)) div 2"
    by simp
  also have "length rs * 2 + length rs * (length rs - 1) = Suc (length rs) * length rs"
    by (cases "length rs") simp_all
  finally show ?case using Cons by simp
qed

lemma pairSimilarities_nonempty:
  "2 \<le> length vs \<Longrightarrow> pairSimilarities vs \<noteq> []"
  using at_least_two[of vs] by auto

lemma literal_seven_tenths:
  "to_double (7 / 10) = Fin (3152519739159347 / 4503599627370496)"
  by code_simp

lemma literal_three_tenths:
  "to_double (3 / 10) = Fin (5404319552844595 / 18014398509481984)"
  by code_simp

lemma js_ge_weaken: "js_ge x (7 / 10) \<Longrightarrow> js_ge x (3 / 10)"
  by (cases x) (simp_all add: js_ge_def literal_seven_tenths literal_three_tenths)

lemma pairSimilarities_length_pos:
  "2 \<le> length vs \<Longrightarrow> 0 < length (pairSimilarities vs)"
  using pairSimilarities_nonempty[of vs] by simp

lemma pairSimilarities_all_pairs:
  "pairSimilarities vs =
     concat (map (\<lambda>i. map (\<lambda>j. calculateTextSimilarity (rtext (vs ! i)) (rtext (vs ! j)))
                       [Suc i ..< length vs]) [0 ..< length vs])"
proof (induction vs)
  case Nil
  then show ?case by simp
next
  case (Cons r rs)
  let ?F = "\<lambda>i. map (\<lambda>j. calculateTextSimilarity (rtext ((r # rs) ! i)) (rtext ((r # rs) ! j)))
                       [Suc i ..< Suc (length rs)]"
  let ?G = "\<lambda>i. map (\<lambda>j. calculateTextSimilarity (rtext (rs ! i)) (rtext (rs ! j)))
                       [Suc i ..< length rs]"
  have "?F 0 = map (\<lambda>j. calculateTextSimilarity (rtext r) (rtext (rs ! j))) [0 ..< length rs]"
    by (simp add: map_Suc_upt[symmetric] del: upt_Suc)
  also have "\<dots> = map (\<lambda>q. calculateTextSimilarity (rtext r) (rtext q)) (map (\<lambda>j. rs ! j) [0 ..< length rs])"
    by simp
  also have "\<dots> = map (\<lambda>q. calculateTextSimilarity (rtext r) (rtext q)) rs"
    by (simp only: map_nth)
  finally have first: "?F 0 = map (\<lambda>q. calculateTextSimilarity (rtext r) (rtext q)) rs" .
  have shift: "\<And>i. ?F (Suc i) = ?G i"
    by (simp add: map_Suc_upt[symmetric] del: upt_Suc)
  have rest: "map ?F (map Suc [0 ..< length rs]) = map ?G [0 ..< length rs]"
    unfolding map_map comp_def shift ..
  have idx: "[0 ..< length (r # rs)] = 0 # map Suc [0 ..< length rs]"
    by (simp add: map_Suc_upt upt_conv_Cons del: upt_Suc)
  have "concat (map ?F [0 ..< length (r # rs)]) = ?F 0 @ concat (map ?F (map Suc [0 ..< length rs]))"
    unfolding idx by simp
  also have "\<dots> = map (\<lambda>q. calculateTextSimilarity (rtext r) (rtext q)) rs @ concat (map ?G [0 ..< length rs])"
    unfolding first rest ..
  also have "\<dots> = pairSimilarities (r # rs)"
    using Cons.IH by simp
  finally show ?case by simp
qed

lemma tier_cases:
  assumes "2 \<le> length (collectValid m)"
  shows "(js_ge (avgSimilarityOf (pairSimilarities (collectValid m))) (7 / 10) \<longrightarrow>
            confidence (synthesizeResponses m) = ''High Confidence''
            \<and> approach (synthesizeResponses m) = ''consensus'')
       \<and> (\<not> js_ge (avgSimilarityOf (pairSimilarities (collectValid m))) (7 / 10)
          \<and> js_ge (avgSimilarityOf (pairSimilarities (collectValid m))) (3 / 10) \<longrightarrow>
            confidence (synthesizeResponses m) = ''Multiple Perspectives''
            \<and> approach (synthesizeResponses m) = ''balanced'')
       \<and> (\<not> js_ge (avgSimilarityOf (pairSimilarities (collectValid m))) (3 / 10) \<longrightarrow>
            confidence (synthesizeResponses m) = ''Diverse Approaches''
            \<and> approach (synthesizeResponses m) = ''comparative'')"
proof -
  obtain a b rest where "collectValid m = a # b # rest"
    using at_least_two[OF assms] by blast
  then show ?thesis
    using js_ge_weaken[of "avgSimilarityOf (pairSimilarities (collectValid m))"]
    by (auto simp add: synthesizeResponses_def Let_def simp del: pairSimilarities.simps)
qed

lemma longestOf_snoc:
  "longestOf first (others @ [y]) =
     (if rlength (longestOf first others) < rlength y then y else longestOf first others)"
  by (simp add: longestOf_def)

lemma longestOf_first_longest:
  "\<exists>i < length (first # others).
      longestOf first others = (first # others) ! i
      \<and> (\<forall>j < length (first # others). rlength ((first # others) ! j) \<le> rlength ((first # others) ! i))
      \<and> (\<forall>j < i. rlength ((first # others) ! j) < rlength ((first # others) ! i))"
proof (induction others rule: rev_induct)
  case Nil
  show ?case by (simp add: longestOf_def)
next
  case (snoc y ys)
  let ?xs = "first # ys"
  from snoc obtain i where i: "i < length ?xs" "longestOf first ys = ?xs ! i"
    and le: "\<forall>j < length ?xs. rlength (?xs ! j) \<le> rlength (?xs ! i)"
    and lt: "\<forall>j < i. rlength (?xs ! j) < rlength (?xs ! i)"
    by blast
  have app: "first # ys @ [y] = ?xs @ [y]" by simp
  show ?case
  proof (cases "rlength (longestOf first ys) < rlength y")
    case True
    have "longestOf first (ys @ [y]) = (?xs @ [y]) ! length ?xs"
      using True by (simp add: longestOf_snoc nth_append del: append_Cons)
    moreover have "\<forall>j < length (?xs @ [y]). rlength ((?xs @ [y]) ! j) \<le> rlength ((?xs @ [y]) ! length ?xs)"
    proof (intro allI impI)
      fix j assume "j < length (?xs @ [y])"
      then consider "j < length ?xs" | "j = length ?xs" by fastforce
      then show "rlength ((?xs @ [y]) ! j) \<le> rlength ((?xs @ [y]) ! length ?xs)"
      proof cases
        case 1
        then have "rlength (?xs ! j) \<le> rlength (?xs ! i)" using le by blast
        then show ?thesis using 1 True i(2) by (simp add: nth_append del: append_Cons nth_Cons_Suc)
      next
        case 2
        then show ?thesis by simp
      qed
    qed
    moreover have "\<forall>j < length ?xs. rlength ((?xs @ [y]) ! j) < rlength ((?xs @ [y]) ! length ?xs)"
    proof (intro allI impI)
      fix j assume j: "j < length ?xs"
      then have "rlength (?xs ! j) \<le> rlength (?xs ! i)" using le by blast
      then show "rlength ((?xs @ [y]) ! j) < rlength ((?xs @ [y]) ! length ?xs)"
        using j True i(2) by (simp add: nth_append del: append_Cons nth_Cons_Suc)
    qed
    ultimately show ?thesis
      unfolding app by (intro exI[of _ "length ?xs"]) simp
  next
    case False
    have "longestOf first (ys @ [y]) = (?xs @ [y]) ! i"
      using False i by (simp add: longestOf_snoc nth_append del: append_Cons)
    moreover have "\<forall>j < length (?xs @ [y]). rlength ((?xs @ [y]) ! j) \<le> rlength ((?xs @ [y]) ! i)"
    proof (intro allI impI)
      fix j assume "j < length (?xs @ [y])"
      then consider "j < length ?xs" | "j = length ?xs" by fastforce
      then show "rlength ((?xs @ [y]) ! j) \<le> rlength ((?xs @ [y]) ! i)"
      proof cases
        case 1
        then have "rlength (?xs ! j) \<le> rlength (?xs ! i)" using le by blast
        then show ?thesis using 1 i(1) by (simp add: nth_append del: append_Cons nth_Cons_Suc)
      next
        case 2
        then show ?thesis using False i by (simp add: nth_append del: append_Cons nth_Cons_Suc)
      qed
    qed
    moreover have "\<forall>j < i. rlength ((?xs @ [y]) ! j) < rlength ((?xs @ [y]) ! i)"
    proof (intro allI impI)
      fix j assume j: "j < i"
      then have "rlength (?xs ! j) < rlength (?xs ! i)" using lt by blast
      then show "rlength ((?xs @ [y]) ! j) < rlength ((?xs @ [y]) ! i)"
        using j i(1) by (simp add: nth_append del: append_Cons nth_Cons_Suc)
    qed
    moreover have "i < length (?xs @ [y])" using i(1) by simp
    ultimately show ?thesis
      unfolding app by blast
  qed
qed

lemma rlength_collectValid:
  "r \<in> set (collectValid m) \<Longrightarrow> rlength r = length (rtext r)"
  by (induction m rule: collectValid.induct) auto

lemma length_trim_le: "length (trim s) \<le> length s"
proof -
  have "length (trim s) \<le> length (dropWhile is_space s)"
    unfolding trim_def using length_dropWhile_le[of is_space "rev (dropWhile is_space s)"] by simp
  also have "\<dots> \<le> length s" by (rule length_dropWhile_le)
  finally show ?thesis .
qed

lemma splitIntoSentences_trimmed: "s \<in> set (splitIntoSentences t) \<Longrightarrow> 10 < length (trim s)"
  by (simp add: splitIntoSentences_def)

lemma extractUniqueDetails_length: "length (extractUniqueDetails base allResponses) \<le> 3"
  by (simp add: extractUniqueDetails_def Let_def)

lemma extractUniqueDetails_member:
  assumes "d \<in> set (extractUniqueDetails base allResponses)"
  shows "\<exists>r \<in> set allResponses. \<exists>s \<in> set (splitIntoSentences (rtext r)).
           source r \<noteq> source base \<and> d = source r @ '': '' @ trim s
           \<and> isUnique (splitIntoSentences (rtext base)) s
           \<and> 20 < length s \<and> length s < 150"
proof -
  from assms have "d \<in> set (concat (map (\<lambda>response.
              if source response = source base then []
              else detailsOf (splitIntoSentences (rtext base)) response) allResponses))"
    unfolding extractUniqueDetails_def Let_def by (rule in_set_takeD)
  then obtain r where r: "r \<in> set allResponses"
    and d: "d \<in> set (if source r = source base then []
              else detailsOf (splitIntoSentences (rtext base)) r)"
    by auto
  then have ne: "source r \<noteq> source base" by (auto split: if_splits)
  with d have "d \<in> set (detailsOf (splitIntoSentences (rtext base)) r)" by simp
  then obtain s where "s \<in> set (splitIntoSentences (rtext r))"
    "d = source r @ '': '' @ trim s" "isUnique (splitIntoSentences (rtext base)) s"
    "20 < length s" "length s < 150"
    by (auto simp: detailsOf_def)
  with r ne show ?thesis by blast
qed

lemma consensus_result:
  assumes "collectValid m = first # second # rest"
    and "js_ge (avgSimilarityOf (pairSimilarities (collectValid m))) (7 / 10)"
  shows "synthesizedAnswer (synthesizeResponses m) =
           consensusText (longestOf first (second # rest))
             (extractUniqueDetails (longestOf first (second # rest)) (collectValid m))"
  using assms by (simp add: synthesizeResponses_def Let_def del: pairSimilarities.simps)

lemma consensusText_form:
  "consensusText base details =
     rtext base @ (if details = [] then []
                   else nl @ nl @ ''**Additional insights:**'' @ nl
                        @ join nl (map (\<lambda>detail. bullet @ '' '' @ detail) details))"
  by (simp add: consensusText_def)

lemma consensus_base:
  assumes "2 \<le> length (collectValid m)"
    and "js_ge (avgSimilarityOf (pairSimilarities (collectValid m))) (7 / 10)"
  shows "\<exists>i < length (collectValid m).
           (\<forall>j < length (collectValid m).
               length (rtext (collectValid m ! j)) \<le> length (rtext (collectValid m ! i)))
         \<and> (\<forall>j < i. length (rtext (collectValid m ! j)) < length (rtext (collectValid m ! i)))
         \<and> synthesizedAnswer (synthesizeResponses m) =
             consensusText (collectValid m ! i)
               (extractUniqueDetails (collectValid m ! i) (collectValid m))"
proof -
  obtain first second rest where vs: "collectValid m = first # second # rest"
    using at_least_two[OF assms(1)] by blast
  let ?vs = "first # second # rest"
  obtain i where i: "i < length ?vs" "longestOf first (second # rest) = ?vs ! i"
    and le: "\<forall>j < length ?vs. rlength (?vs ! j) \<le> rlength (?vs ! i)"
    and lt: "\<forall>j < i. rlength (?vs ! j) < rlength (?vs ! i)"
    using longestOf_first_longest[of first "second # rest"] by blast
  have len: "\<And>j. j < length ?vs \<Longrightarrow> rlength (?vs ! j) = length (rtext (?vs ! j))"
    using rlength_collectValid[of _ m] vs nth_mem[of _ ?vs] by metis
  have "\<forall>j < length ?vs. length (rtext (?vs ! j)) \<le> length (rtext (?vs ! i))"
    using le len i(1) by metis
  moreover have "\<forall>j < i. length (rtext (?vs ! j)) < length (rtext (?vs ! i))"
  proof (intro allI impI)
    fix j assume j: "j < i"
    then have "j < length ?vs" using i(1) by simp
    then show "length (rtext (?vs ! j)) < length (rtext (?vs ! i))"
      using lt j len i(1) by metis
  qed
  moreover have "synthesizedAnswer (synthesizeResponses m) =
             consensusText (?vs ! i) (extractUniqueDetails (?vs ! i) (collectValid m))"
    using consensus_result[OF vs assms(2)] i(2) by simp
  ultimately show ?thesis
    unfolding vs using i(1) by blast
qed

lemma first_of_two_longest:
  assumes "length vs = 2" "length (rtext (vs ! 1)) < length (rtext (vs ! 0))"
    and "i < length vs"
    and "\<forall>j < length vs. length (rtext (vs ! j)) \<le> length (rtext (vs ! i))"
  shows "i = 0"
proof (rule ccontr)
  assume "i \<noteq> 0"
  then have "i = 1" using assms(1,3) by simp
  moreover have "length (rtext (vs ! 0)) \<le> length (rtext (vs ! i))"
    using assms(4)[rule_format, of 0] assms(1) by simp
  ultimately show False using assms(2) by simp
qed

section \<open>Which providers count as sources\<close>





section \<open>The similarity of two texts\<close>

text \<open>
  C8: the similarity is symmetric. Both calls return the same value, also when
  that value is \<open>NaN\<close>.
\<close>

theorem calculateTextSimilarity_symmetric:
  "calculateTextSimilarity a b = calculateTextSimilarity b a"
  by (simp add: calculateTextSimilarity_def Let_def Int_commute Un_commute disj_commute)

theorem calculateTextSimilarity_symmetric_witness:
  "calculateTextSimilarity ''the quick brown fox'' ''The lazy brown dog'' = to_double (1 / 3)
   \<and> calculateTextSimilarity ''The lazy brown dog'' ''the quick brown fox'' = to_double (1 / 3)"
proof -
  have "calculateTextSimilarity ''the quick brown fox'' ''The lazy brown dog'' = to_double (1 / 3)"
    by code_simp
  then show ?thesis
    using calculateTextSimilarity_symmetric[of "''The lazy brown dog''" "''the quick brown fox''"]
    by simp
qed

text \<open>
  C3: two texts without a word of three characters. Neither \<open>hi\<close> nor \<open>yo\<close> is
  empty, so the guard on the first line lets them through; both word sets are
  empty and the quotient of the two sizes is \<open>0 / 0\<close>. The similarity of \<open>hi\<close>
  and \<open>yo\<close>, which share no word, is \<open>NaN\<close> and not 0, and the similarity of
  \<open>No\<close> with itself is \<open>NaN\<close> and not 1.
\<close>

theorem similarity_NaN_without_words:
  "calculateTextSimilarity ''hi'' ''yo'' = NaN
   \<and> calculateTextSimilarity ''No'' ''No'' = NaN"
  by code_simp

section \<open>One valid response\<close>



section \<open>The score on texts without words\<close>

text \<open>
  C4: two providers both answer \<open>No\<close>. Neither text has a word of three
  characters, their similarity is \<open>NaN\<close>, and so are the mean and the score:
  the result's \<open>confidenceScore\<close> is not an integer between 0 and 100.
\<close>

theorem score_NaN_on_short_answers:
  "confidenceScore (synthesizeResponses
      [(''openai'', Text ''No''), (''anthropic'', Text ''No'')]) = RNaN"
  by code_simp

section \<open>Pairs with an empty text\<close>

text \<open>
  C2, as stated, fails: a pair with an empty text is not left out of the mean.
  With one empty and two equal texts the three similarities are 0, 0 and 1 and
  the mean is the double nearest to a third (score 33); over the one pair without
  an empty text it would be 1.
\<close>

theorem empty_text_pair_in_mean:
  "pairSimilarities (collectValid
      [(''openai'', Text ''''), (''anthropic'', Text ''Paris is the capital''),
       (''google'', Text ''Paris is the capital'')]) = [Fin 0, Fin 0, Fin 1]
   \<and> spec_pairSimilarities_excluding_empty (collectValid
      [(''openai'', Text ''''), (''anthropic'', Text ''Paris is the capital''),
       (''google'', Text ''Paris is the capital'')]) = [Fin 1]
   \<and> avgSimilarityOf (pairSimilarities (collectValid
      [(''openai'', Text ''''), (''anthropic'', Text ''Paris is the capital''),
       (''google'', Text ''Paris is the capital'')])) = to_double (1 / 3)
   \<and> avgSimilarityOf (spec_pairSimilarities_excluding_empty (collectValid
      [(''openai'', Text ''''), (''anthropic'', Text ''Paris is the capital''),
       (''google'', Text ''Paris is the capital'')])) = Fin 1
   \<and> confidenceScore (synthesizeResponses
      [(''openai'', Text ''''), (''anthropic'', Text ''Paris is the capital''),
       (''google'', Text ''Paris is the capital'')]) = RInt 33"
  by code_simp

text \<open>
  C2, amended: the similarity of two texts is 0 when one of them is empty. With
  two or more valid responses \<open>similarities\<close> holds the similarity of every pair
  \<open>i < j\<close>, a pair with an empty text included (it adds 0 to the sum and counts
  in the divisor); there are \<open>n (n - 1) / 2\<close> of them, at least one, so the
  division that computes the mean never has divisor zero.
\<close>

theorem mean_over_all_pairs:
  "(text1 = [] \<or> text2 = [] \<longrightarrow> calculateTextSimilarity text1 text2 = Fin 0)
   \<and> (2 \<le> length (collectValid m) \<longrightarrow>
        pairSimilarities (collectValid m) =
          concat (map (\<lambda>i. map (\<lambda>j. calculateTextSimilarity (rtext (collectValid m ! i))
                                                             (rtext (collectValid m ! j)))
                            [Suc i ..< length (collectValid m)])
                   [0 ..< length (collectValid m)])
      \<and> length (pairSimilarities (collectValid m))
          = length (collectValid m) * (length (collectValid m) - 1) div 2
      \<and> 0 < length (pairSimilarities (collectValid m))
      \<and> confidenceScore (synthesizeResponses m) =
          Math_round (js_times100
            (js_div_count (foldl js_add (Fin 0) (pairSimilarities (collectValid m)))
                          (length (pairSimilarities (collectValid m))))))"
proof (intro conjI impI)
  assume "text1 = [] \<or> text2 = []"
  then show "calculateTextSimilarity text1 text2 = Fin 0"
    by (simp add: calculateTextSimilarity_def)
next
  show "pairSimilarities (collectValid m) =
          concat (map (\<lambda>i. map (\<lambda>j. calculateTextSimilarity (rtext (collectValid m ! i))
                                                             (rtext (collectValid m ! j)))
                            [Suc i ..< length (collectValid m)])
                   [0 ..< length (collectValid m)])"
    by (rule pairSimilarities_all_pairs)
next
  show "length (pairSimilarities (collectValid m))
          = length (collectValid m) * (length (collectValid m) - 1) div 2"
    by (rule length_pairSimilarities)
next
  assume "2 \<le> length (collectValid m)"
  then show "0 < length (pairSimilarities (collectValid m))"
    by (rule pairSimilarities_length_pos)
next
  assume "2 \<le> length (collectValid m)"
  then show "confidenceScore (synthesizeResponses m) =
          Math_round (js_times100
            (js_div_count (foldl js_add (Fin 0) (pairSimilarities (collectValid m)))
                          (length (pairSimilarities (collectValid m)))))"
    using score_collectValid by (simp add: avgSimilarityOf_def)
qed

theorem mean_over_all_pairs_witness:
  "calculateTextSimilarity '''' ''Paris is the capital'' = Fin 0
   \<and> 2 \<le> length (collectValid
      [(''openai'', Text ''''), (''anthropic'', Text ''Paris is the capital''),
       (''google'', Text ''Paris is the capital'')])
   \<and> length (pairSimilarities (collectValid
      [(''openai'', Text ''''), (''anthropic'', Text ''Paris is the capital''),
       (''google'', Text ''Paris is the capital'')])) = 3
   \<and> confidenceScore (synthesizeResponses
      [(''openai'', Text ''''), (''anthropic'', Text ''Paris is the capital''),
       (''google'', Text ''Paris is the capital'')]) = RInt 33"
proof -
  let ?m = "[(''openai'', Text ''''), (''anthropic'', Text ''Paris is the capital''),
       (''google'', Text ''Paris is the capital'')]"
  have two: "2 \<le> length (collectValid ?m)" by simp
  have three: "length (collectValid ?m) * (length (collectValid ?m) - 1) div 2 = 3" by simp
  have score: "Math_round (js_times100
            (js_div_count (foldl js_add (Fin 0) (pairSimilarities (collectValid ?m)))
                          (length (pairSimilarities (collectValid ?m))))) = RInt 33"
    by code_simp
  note claim = mean_over_all_pairs[of "''''" "''Paris is the capital''" ?m]
  from claim have "calculateTextSimilarity '''' ''Paris is the capital'' = Fin 0" by blast
  moreover from claim two have "length (pairSimilarities (collectValid ?m))
          = length (collectValid ?m) * (length (collectValid ?m) - 1) div 2" by blast
  then have "length (pairSimilarities (collectValid ?m)) = 3" using three by simp
  moreover from claim two have "confidenceScore (synthesizeResponses ?m) =
          Math_round (js_times100
            (js_div_count (foldl js_add (Fin 0) (pairSimilarities (collectValid ?m)))
                          (length (pairSimilarities (collectValid ?m)))))" by blast
  then have "confidenceScore (synthesizeResponses ?m) = RInt 33" using score by simp
  ultimately show ?thesis using two by blast
qed

section \<open>Tier and score at a mean on the boundary\<close>

text \<open>
  C5: three responses of 17 words each, every two of them sharing 14 words out
  of 20, so that each pairwise similarity is 14/20 and their arithmetic mean is
  exactly 0.70. In doubles the running sum \<open>0.7 + 0.7 + 0.7\<close> is
  \<open>2.0999999999999996\<close> and a third of it is \<open>0.6999999999999998\<close>, which
  is below the literal \<open>0.7\<close>: the result is the Medium tier (labelled
  \<open>Multiple Perspectives\<close>) with approach \<open>balanced\<close>, next to a score of 70.
  On three short responses with similarities 1/5, 3/6 and 1/8 the mean is exactly
  0.275 and the score would be 28; the computed mean times 100 is
  \<open>27.499999999999996\<close> and the score is 27.
\<close>

theorem boundary_mean_rounds_down:
  "card (words_of ''start with clear goals measure each change and keep small steps review code often write tests first''
       \<inter> words_of ''start with clear goals measure each change and keep small steps review code often profile before tuning'') = 14
   \<and> card (words_of ''start with clear goals measure each change and keep small steps review code often write tests first''
       \<union> words_of ''start with clear goals measure each change and keep small steps review code often profile before tuning'') = 20
   \<and> card (words_of ''start with clear goals measure each change and keep small steps review code often write tests first''
       \<inter> words_of ''start with clear goals measure each change and keep small steps write tests first profile before tuning'') = 14
   \<and> card (words_of ''start with clear goals measure each change and keep small steps review code often write tests first''
       \<union> words_of ''start with clear goals measure each change and keep small steps write tests first profile before tuning'') = 20
   \<and> card (words_of ''start with clear goals measure each change and keep small steps review code often profile before tuning''
       \<inter> words_of ''start with clear goals measure each change and keep small steps write tests first profile before tuning'') = 14
   \<and> card (words_of ''start with clear goals measure each change and keep small steps review code often profile before tuning''
       \<union> words_of ''start with clear goals measure each change and keep small steps write tests first profile before tuning'') = 20
   \<and> avgSimilarityOf (pairSimilarities (collectValid
        [(''openai'', Text ''start with clear goals measure each change and keep small steps review code often write tests first''),
         (''anthropic'', Text ''start with clear goals measure each change and keep small steps review code often profile before tuning''),
         (''google'', Text ''start with clear goals measure each change and keep small steps write tests first profile before tuning'')]))
       = Fin (6305039478318693 / 9007199254740992)
   \<and> confidence (synthesizeResponses
        [(''openai'', Text ''start with clear goals measure each change and keep small steps review code often write tests first''),
         (''anthropic'', Text ''start with clear goals measure each change and keep small steps review code often profile before tuning''),
         (''google'', Text ''start with clear goals measure each change and keep small steps write tests first profile before tuning'')])
       = ''Multiple Perspectives''
   \<and> approach (synthesizeResponses
        [(''openai'', Text ''start with clear goals measure each change and keep small steps review code often write tests first''),
         (''anthropic'', Text ''start with clear goals measure each change and keep small steps review code often profile before tuning''),
         (''google'', Text ''start with clear goals measure each change and keep small steps write tests first profile before tuning'')])
       = ''balanced''
   \<and> confidenceScore (synthesizeResponses
        [(''openai'', Text ''start with clear goals measure each change and keep small steps review code often write tests first''),
         (''anthropic'', Text ''start with clear goals measure each change and keep small steps review code often profile before tuning''),
         (''google'', Text ''start with clear goals measure each change and keep small steps write tests first profile before tuning'')])
       = RInt 70
   \<and> pairSimilarities (collectValid
        [(''openai'', Text ''cache query results''),
         (''anthropic'', Text ''cache static assets''),
         (''google'', Text ''cache query results using redis nodes'')])
       = [to_double (1 / 5), to_double (3 / 6), to_double (1 / 8)]
   \<and> confidenceScore (synthesizeResponses
        [(''openai'', Text ''cache query results''),
         (''anthropic'', Text ''cache static assets''),
         (''google'', Text ''cache query results using redis nodes'')])
       = RInt 27"
proof -
  let ?a = "''start with clear goals measure each change and keep small steps review code often write tests first''"
  let ?b = "''start with clear goals measure each change and keep small steps review code often profile before tuning''"
  let ?c = "''start with clear goals measure each change and keep small steps write tests first profile before tuning''"
  let ?m = "[(''openai'', Text ?a), (''anthropic'', Text ?b), (''google'', Text ?c)]"
  let ?s = "[(''openai'', Text ''cache query results''),
             (''anthropic'', Text ''cache static assets''),
             (''google'', Text ''cache query results using redis nodes'')]"
  have ab: "card (words_of ?a \<inter> words_of ?b) = 14 \<and> card (words_of ?a \<union> words_of ?b) = 20"
    by code_simp
  have ac: "card (words_of ?a \<inter> words_of ?c) = 14 \<and> card (words_of ?a \<union> words_of ?c) = 20"
    by code_simp
  have bc: "card (words_of ?b \<inter> words_of ?c) = 14 \<and> card (words_of ?b \<union> words_of ?c) = 20"
    by code_simp
  have two: "2 \<le> length (collectValid ?m)" by simp
  have avg: "avgSimilarityOf (pairSimilarities (collectValid ?m))
      = Fin (6305039478318693 / 9007199254740992)"
    by code_simp
  have below: "\<not> js_ge (Fin (6305039478318693 / 9007199254740992)) (7 / 10)"
    by (simp add: js_ge_def literal_seven_tenths)
  have above: "js_ge (Fin (6305039478318693 / 9007199254740992)) (3 / 10)"
    by (simp add: js_ge_def literal_three_tenths)
  have tier: "confidence (synthesizeResponses ?m) = ''Multiple Perspectives''
      \<and> approach (synthesizeResponses ?m) = ''balanced''"
    using tier_cases[OF two] below above unfolding avg by blast
  have "Math_round (js_times100 (Fin (6305039478318693 / 9007199254740992))) = RInt 70"
    by code_simp
  then have score: "confidenceScore (synthesizeResponses ?m) = RInt 70"
    using score_collectValid[OF two] unfolding avg by simp
  have short_two: "2 \<le> length (collectValid ?s)" by simp
  have short_sims: "pairSimilarities (collectValid ?s)
      = [to_double (1 / 5), to_double (3 / 6), to_double (1 / 8)]"
    by code_simp
  have "Math_round (js_times100 (avgSimilarityOf (pairSimilarities (collectValid ?s)))) = RInt 27"
    by code_simp
  then have short_score: "confidenceScore (synthesizeResponses ?s) = RInt 27"
    using score_collectValid[OF short_two] by simp
  from ab ac bc avg tier score short_sims short_score show ?thesis by blast
qed

section \<open>The consensus answer\<close>

text \<open>
  C6, as stated, fails: a sentence whose similarity with a base sentence is
  exactly 0.70 (7 shared words of 10, the double that the literal \<^verbatim>\<open>0.7\<close>
  denotes) is appended. The test is \<^verbatim>\<open>> 0.7\<close>, not \<^verbatim>\<open>>= 0.7\<close>.
\<close>

theorem similarity_seventy_percent_appended:
  "synthesizedAnswer (synthesizeResponses
       [(''openai'', Text ''use indexes and caching for fast queries with small tables''),
        (''google'', Text ''use indexes and caching for fast queries'')])
     = ''use indexes and caching for fast queries with small tables'' @ nl @ nl
       @ ''**Additional insights:**'' @ nl
       @ bullet @ '' Google: use indexes and caching for fast queries''
   \<and> approach (synthesizeResponses
       [(''openai'', Text ''use indexes and caching for fast queries with small tables''),
        (''google'', Text ''use indexes and caching for fast queries'')]) = ''consensus''
   \<and> splitIntoSentences ''use indexes and caching for fast queries with small tables''
       = [''use indexes and caching for fast queries with small tables'']
   \<and> calculateTextSimilarity ''use indexes and caching for fast queries''
         ''use indexes and caching for fast queries with small tables'' = to_double (7 / 10)
   \<and> card (words_of ''use indexes and caching for fast queries''
       \<inter> words_of ''use indexes and caching for fast queries with small tables'') = 7
   \<and> card (words_of ''use indexes and caching for fast queries''
       \<union> words_of ''use indexes and caching for fast queries with small tables'') = 10"
  by code_simp

text \<open>
  C6, amended: with two or more valid responses and a mean similarity of at least
  0.70, the answer begins with the text of the longest valid response (length in
  characters, the earliest of the longest ones), followed by at most three
  appended sentences. Each comes from a response whose source differs from the
  base's, is tagged with that source, and has a similarity of at most 0.70 with
  every base sentence (strictly more than 0.70 excludes it, exactly 0.70 does
  not); sentences are the pieces between runs of \<open>.\<close>, \<open>!\<close> and \<open>?\<close> whose
  trimmed length exceeds 10.
\<close>

theorem consensus_answer:
  assumes "2 \<le> length (collectValid m)"
    and "js_ge (avgSimilarityOf (pairSimilarities (collectValid m))) (7 / 10)"
  shows "\<exists>i details. i < length (collectValid m)
     \<and> (\<forall>j < length (collectValid m).
           length (rtext (collectValid m ! j)) \<le> length (rtext (collectValid m ! i)))
     \<and> (\<forall>j < i. length (rtext (collectValid m ! j)) < length (rtext (collectValid m ! i)))
     \<and> details = extractUniqueDetails (collectValid m ! i) (collectValid m)
     \<and> synthesizedAnswer (synthesizeResponses m) =
         rtext (collectValid m ! i)
         @ (if details = [] then []
            else nl @ nl @ ''**Additional insights:**'' @ nl
                 @ join nl (map (\<lambda>detail. bullet @ '' '' @ detail) details))
     \<and> length details \<le> 3
     \<and> (\<forall>d \<in> set details. \<exists>r \<in> set (collectValid m). \<exists>s \<in> set (splitIntoSentences (rtext r)).
           source r \<noteq> source (collectValid m ! i)
           \<and> d = source r @ '': '' @ trim s
           \<and> (\<forall>b \<in> set (splitIntoSentences (rtext (collectValid m ! i))).
                 \<not> js_gt (calculateTextSimilarity s b) (7 / 10)))"
proof -
  obtain i where i: "i < length (collectValid m)"
    and le: "\<forall>j < length (collectValid m).
               length (rtext (collectValid m ! j)) \<le> length (rtext (collectValid m ! i))"
    and lt: "\<forall>j < i. length (rtext (collectValid m ! j)) < length (rtext (collectValid m ! i))"
    and ans: "synthesizedAnswer (synthesizeResponses m) =
             consensusText (collectValid m ! i)
               (extractUniqueDetails (collectValid m ! i) (collectValid m))"
    using consensus_base[OF assms] by blast
  let ?base = "collectValid m ! i"
  let ?details = "extractUniqueDetails ?base (collectValid m)"
  have "\<forall>d \<in> set ?details. \<exists>r \<in> set (collectValid m). \<exists>s \<in> set (splitIntoSentences (rtext r)).
           source r \<noteq> source ?base \<and> d = source r @ '': '' @ trim s
           \<and> (\<forall>b \<in> set (splitIntoSentences (rtext ?base)).
                 \<not> js_gt (calculateTextSimilarity s b) (7 / 10))"
  proof
    fix d assume "d \<in> set ?details"
    from extractUniqueDetails_member[OF this]
    show "\<exists>r \<in> set (collectValid m). \<exists>s \<in> set (splitIntoSentences (rtext r)).
           source r \<noteq> source ?base \<and> d = source r @ '': '' @ trim s
           \<and> (\<forall>b \<in> set (splitIntoSentences (rtext ?base)).
                 \<not> js_gt (calculateTextSimilarity s b) (7 / 10))"
      unfolding isUnique_def by blast
  qed
  moreover have "length ?details \<le> 3" by (rule extractUniqueDetails_length)
  moreover note i le lt ans[unfolded consensusText_form]
  ultimately show ?thesis by blast
qed

theorem consensus_answer_witness:
  "2 \<le> length (collectValid
       [(''openai'', Text ''use indexes and caching for fast queries with small tables''),
        (''google'', Text ''use indexes and caching for fast queries'')])
   \<and> js_ge (avgSimilarityOf (pairSimilarities (collectValid
       [(''openai'', Text ''use indexes and caching for fast queries with small tables''),
        (''google'', Text ''use indexes and caching for fast queries'')]))) (7 / 10)
   \<and> synthesizedAnswer (synthesizeResponses
       [(''openai'', Text ''use indexes and caching for fast queries with small tables''),
        (''google'', Text ''use indexes and caching for fast queries'')])
     = ''use indexes and caching for fast queries with small tables'' @ nl @ nl
       @ ''**Additional insights:**'' @ nl
       @ bullet @ '' Google: use indexes and caching for fast queries''"
proof -
  let ?m = "[(''openai'', Text ''use indexes and caching for fast queries with small tables''),
             (''google'', Text ''use indexes and caching for fast queries'')]"
  have len: "length (collectValid ?m) = 2" by simp
  have two: "2 \<le> length (collectValid ?m)" by simp
  have avg: "js_ge (avgSimilarityOf (pairSimilarities (collectValid ?m))) (7 / 10)"
    by code_simp
  have shorter: "length (rtext (collectValid ?m ! 1)) < length (rtext (collectValid ?m ! 0))"
    by code_simp
  have base: "rtext (collectValid ?m ! 0)
      = ''use indexes and caching for fast queries with small tables''"
    by code_simp
  have details: "extractUniqueDetails (collectValid ?m ! 0) (collectValid ?m)
      = [''Google: use indexes and caching for fast queries'']"
    by code_simp
  obtain i ds where i: "i < length (collectValid ?m)"
    and le: "\<forall>j < length (collectValid ?m).
           length (rtext (collectValid ?m ! j)) \<le> length (rtext (collectValid ?m ! i))"
    and ds: "ds = extractUniqueDetails (collectValid ?m ! i) (collectValid ?m)"
    and ans: "synthesizedAnswer (synthesizeResponses ?m) =
         rtext (collectValid ?m ! i)
         @ (if ds = [] then []
            else nl @ nl @ ''**Additional insights:**'' @ nl
                 @ join nl (map (\<lambda>detail. bullet @ '' '' @ detail) ds))"
    using consensus_answer[OF two avg] by blast
  have i0: "i = 0" using first_of_two_longest[OF len shorter i le] .
  have "ds = [''Google: use indexes and caching for fast queries'']"
    unfolding ds i0 details ..
  then have "synthesizedAnswer (synthesizeResponses ?m)
     = ''use indexes and caching for fast queries with small tables'' @ nl @ nl
       @ ''**Additional insights:**'' @ nl
       @ bullet @ '' Google: use indexes and caching for fast queries''"
    unfolding ans i0 base by simp
  with two avg show ?thesis by blast
qed

section \<open>The length filter on additional insights\<close>

text \<open>
  C10, as stated, fails: the length test reads the sentence as split, with the
  blank that follows the previous full stop, and the appended text is the trimmed
  sentence. A piece of 21 characters passes and is appended as a sentence of 20.
\<close>

theorem twenty_character_insight:
  "synthesizedAnswer (synthesizeResponses
     [(''openai'', Text ''Always profile the code before you tune any loop and keep tests near each change. measure it twice or so''),
      (''google'', Text ''Always profile the code before you tune any loop and keep tests near each change. use caching up front'')])
     = ''Always profile the code before you tune any loop and keep tests near each change. measure it twice or so''
       @ nl @ nl @ ''**Additional insights:**'' @ nl @ bullet @ '' Google: use caching up front''
   \<and> approach (synthesizeResponses
     [(''openai'', Text ''Always profile the code before you tune any loop and keep tests near each change. measure it twice or so''),
      (''google'', Text ''Always profile the code before you tune any loop and keep tests near each change. use caching up front'')])
     = ''consensus''
   \<and> length ''use caching up front'' = 20"
  by code_simp

text \<open>
  C10, amended: in the consensus approach every appended sentence is the trimmed
  form of a piece whose length before trimming is strictly greater than 20 and
  strictly less than 150; the appended text itself has more than 10 and fewer
  than 150 characters.
\<close>

theorem insight_lengths:
  assumes "2 \<le> length (collectValid m)"
    and "js_ge (avgSimilarityOf (pairSimilarities (collectValid m))) (7 / 10)"
  shows "\<exists>i details. i < length (collectValid m)
     \<and> (\<forall>j < length (collectValid m).
           length (rtext (collectValid m ! j)) \<le> length (rtext (collectValid m ! i)))
     \<and> details = extractUniqueDetails (collectValid m ! i) (collectValid m)
     \<and> synthesizedAnswer (synthesizeResponses m) =
         rtext (collectValid m ! i)
         @ (if details = [] then []
            else nl @ nl @ ''**Additional insights:**'' @ nl
                 @ join nl (map (\<lambda>detail. bullet @ '' '' @ detail) details))
     \<and> (\<forall>d \<in> set details. \<exists>r \<in> set (collectValid m). \<exists>s \<in> set (splitIntoSentences (rtext r)).
           d = source r @ '': '' @ trim s
           \<and> 20 < length s \<and> length s < 150
           \<and> 10 < length (trim s) \<and> length (trim s) < 150)"
proof -
  obtain i where i: "i < length (collectValid m)"
    and le: "\<forall>j < length (collectValid m).
               length (rtext (collectValid m ! j)) \<le> length (rtext (collectValid m ! i))"
    and ans: "synthesizedAnswer (synthesizeResponses m) =
             consensusText (collectValid m ! i)
               (extractUniqueDetails (collectValid m ! i) (collectValid m))"
    using consensus_base[OF assms] by blast
  let ?base = "collectValid m ! i"
  let ?details = "extractUniqueDetails ?base (collectValid m)"
  have "\<forall>d \<in> set ?details. \<exists>r \<in> set (collectValid m). \<exists>s \<in> set (splitIntoSentences (rtext r)).
           d = source r @ '': '' @ trim s
           \<and> 20 < length s \<and> length s < 150
           \<and> 10 < length (trim s) \<and> length (trim s) < 150"
  proof
    fix d assume "d \<in> set ?details"
    from extractUniqueDetails_member[OF this]
    obtain r s where rs: "r \<in> set (collectValid m)" "s \<in> set (splitIntoSentences (rtext r))"
      "d = source r @ '': '' @ trim s" "20 < length s" "length s < 150"
      by blast
    have "10 < length (trim s)" using rs(2) by (rule splitIntoSentences_trimmed)
    moreover have "length (trim s) < 150" using length_trim_le[of s] rs(5) by simp
    ultimately show "\<exists>r \<in> set (collectValid m). \<exists>s \<in> set (splitIntoSentences (rtext r)).
           d = source r @ '': '' @ trim s
           \<and> 20 < length s \<and> length s < 150
           \<and> 10 < length (trim s) \<and> length (trim s) < 150"
      using rs by blast
  qed
  moreover note i le ans[unfolded consensusText_form]
  ultimately show ?thesis by blast
qed

theorem insight_lengths_witness:
  "2 \<le> length (collectValid
     [(''openai'', Text ''Always profile the code before you tune any loop and keep tests near each change. measure it twice or so''),
      (''google'', Text ''Always profile the code before you tune any loop and keep tests near each change. use caching up front'')])
   \<and> js_ge (avgSimilarityOf (pairSimilarities (collectValid
     [(''openai'', Text ''Always profile the code before you tune any loop and keep tests near each change. measure it twice or so''),
      (''google'', Text ''Always profile the code before you tune any loop and keep tests near each change. use caching up front'')]))) (7 / 10)
   \<and> (\<exists>r \<in> set (collectValid
     [(''openai'', Text ''Always profile the code before you tune any loop and keep tests near each change. measure it twice or so''),
      (''google'', Text ''Always profile the code before you tune any loop and keep tests near each change. use caching up front'')]).
        \<exists>s \<in> set (splitIntoSentences (rtext r)).
           ''Google: use caching up front'' = source r @ '': '' @ trim s
           \<and> 20 < length s \<and> length s < 150
           \<and> 10 < length (trim s) \<and> length (trim s) < 150)"
proof -
  let ?m = "[(''openai'', Text ''Always profile the code before you tune any loop and keep tests near each change. measure it twice or so''),
      (''google'', Text ''Always profile the code before you tune any loop and keep tests near each change. use caching up front'')]"
  have len: "length (collectValid ?m) = 2" by simp
  have two: "2 \<le> length (collectValid ?m)" by simp
  have avg: "js_ge (avgSimilarityOf (pairSimilarities (collectValid ?m))) (7 / 10)"
    by code_simp
  have shorter: "length (rtext (collectValid ?m ! 1)) < length (rtext (collectValid ?m ! 0))"
    by code_simp
  have details: "extractUniqueDetails (collectValid ?m ! 0) (collectValid ?m)
      = [''Google: use caching up front'']"
    by code_simp
  obtain i ds where i: "i < length (collectValid ?m)"
    and le: "\<forall>j < length (collectValid ?m).
           length (rtext (collectValid ?m ! j)) \<le> length (rtext (collectValid ?m ! i))"
    and ds: "ds = extractUniqueDetails (collectValid ?m ! i) (collectValid ?m)"
    and all: "\<forall>d \<in> set ds. \<exists>r \<in> set (collectValid ?m). \<exists>s \<in> set (splitIntoSentences (rtext r)).
           d = source r @ '': '' @ trim s
           \<and> 20 < length s \<and> length s < 150
           \<and> 10 < length (trim s) \<and> length (trim s) < 150"
    using insight_lengths[OF two avg] by blast
  have i0: "i = 0" using first_of_two_longest[OF len shorter i le] .
  have "ds = [''Google: use caching up front'']"
    unfolding ds i0 details ..
  then have "''Google: use caching up front'' \<in> set ds" by simp
  with all have "\<exists>r \<in> set (collectValid ?m). \<exists>s \<in> set (splitIntoSentences (rtext r)).
           ''Google: use caching up front'' = source r @ '': '' @ trim s
           \<and> 20 < length s \<and> length s < 150
           \<and> 10 < length (trim s) \<and> length (trim s) < 150"
    by blast
  with two avg show ?thesis by blast
qed

end
